theory Spec2Isabelle
  imports Complex_Main
begin

section \<open>Field values and the field calculator\<close>

text \<open>
  The scripts drive a geodatabase through geoprocessing tools. A table is a list of rows;
  a nullable numeric field (DOUBLE, FLOAT or LONG) holds a \<open>real option\<close>, with \<open>None\<close>
  for the database NULL that Python sees as \<open>None\<close>. Field arithmetic is modelled in exact
  real arithmetic. A geometry (\<open>SHAPE@\<close>) is the list of its vertices; the scripts only
  copy geometries.

  A field-calculator expression is a Python expression evaluated once per row with the
  row's values substituted for \<open>!FIELD!\<close>. The exceptions such an expression can raise are
  values of \<open>py_error\<close>.
\<close>

datatype py_error = SyntaxError | TypeError | ZeroDivisionError | NameError | ExecuteError

type_synonym geometry = "(real \<times> real) list"

type_synonym field_value = "real option"

text \<open>Python's binary arithmetic on field values: an operand that is \<open>None\<close> raises.\<close>

fun py_sub :: "field_value \<Rightarrow> field_value \<Rightarrow> py_error + field_value" where
  "py_sub (Some a) (Some b) = Inr (Some (a - b))"
| "py_sub _ _ = Inl TypeError"

fun py_mul :: "field_value \<Rightarrow> field_value \<Rightarrow> py_error + field_value" where
  "py_mul (Some a) (Some b) = Inr (Some (a * b))"
| "py_mul _ _ = Inl TypeError"

text \<open>
  \<open>CalculateField_management\<close> with a Python expression stores the value of the
  expression in the row; a row whose expression raises is set to NULL and the tool goes
  on with the next row.
\<close>

fun CalculateField :: "py_error + field_value \<Rightarrow> field_value" where
  "CalculateField (Inr v) = v"
| "CalculateField (Inl e) = None"

section \<open>Snapping rules for business locations\<close>

definition snappables :: "string list" where
  "snappables = [''Network_LocalStreets'']"

text \<open>
  Lines 134--141 of the detours script:
  \<open>sourceNames = [[i.name] for i in descNet.sources]\<close>, then each entry is extended with
  \<open>"SHAPE"\<close> when its name is in \<open>snappables\<close> and with \<open>"NONE"\<close> otherwise. The list is the
  search criteria handed to \<open>AddLocations\<close> for the incidents (the businesses); the
  facilities and the barrier are located with the defaults. The traversals script has
  the same statements at its lines 125--131.
\<close>

definition sourceNames :: "string list \<Rightarrow> (string \<times> string) list" where
  "sourceNames sources =
     map (\<lambda>i. (i, if i \<in> set snappables then ''SHAPE'' else ''NONE'')) sources"

section \<open>Rows of the business-by-bridge tables\<close>

text \<open>
  A row of \<open>Bridges_by_Bus_<dest>\<close> and of its copy \<open>detours_<dest>\<close>. A field that has not
  been added yet, or was added and not calculated, is \<open>None\<close>.
\<close>

record bb_row =
  OBJECTID :: nat
  Business_ID :: int
  BRDG_NBR :: string
  Bridge_X :: "real option"
  Bridge_Y :: "real option"
  Base_Length :: "real option"
  SHAPE :: "geometry option"
  Business_X :: "real option"
  Business_Y :: "real option"
  Truck_Int :: "real option"
  BUS_TO_BRIDGE_MU :: "real option"
  BUS_TO_BRIDGE_MI :: "real option"
  Truck_Int_DW :: "real option"
  No_Bridge_Time :: "real option"
  DET_TIME :: "real option"
  JOB_DET_TIME :: "real option"
  DISTW_JOB_DET_TIME :: "real option"

section \<open>Detours script: composite keys\<close>

text \<open>Python's \<open>str\<close> of an integer, as \<open>"{0}".format\<close> prints a LONG value.\<close>

definition digit_char :: "nat \<Rightarrow> char" where
  "digit_char d =
     (if d = 0 then CHR ''0'' else if d = 1 then CHR ''1'' else if d = 2 then CHR ''2''
      else if d = 3 then CHR ''3'' else if d = 4 then CHR ''4'' else if d = 5 then CHR ''5''
      else if d = 6 then CHR ''6'' else if d = 7 then CHR ''7'' else if d = 8 then CHR ''8''
      else CHR ''9'')"

fun str_nat :: "nat \<Rightarrow> string" where
  "str_nat n = (if n < 10 then [digit_char n] else str_nat (n div 10) @ [digit_char (n mod 10)])"

declare str_nat.simps [simp del]

definition str_int :: "int \<Rightarrow> string" where
  "str_int i = (if i < 0 then CHR ''-'' # str_nat (nat (- i)) else str_nat (nat i))"

text \<open>\<open>"{0},{1}".format(business, bridge)\<close>: the key of lines 162 and 169.\<close>

definition format_key :: "int \<Rightarrow> string \<Rightarrow> string" where
  "format_key b br = str_int b @ '','' @ br"

definition detKey :: "bb_row \<Rightarrow> string" where
  "detKey detoursRow = format_key (Business_ID detoursRow) (BRDG_NBR detoursRow)"

section \<open>Detours script: one barred solve per business and bridge\<close>

text \<open>
  What the \<open>try\<close> block of lines 153--164 can meet after the closest-facility layer has
  been solved with the bridge as a point barrier:
  \<^item> \<open>RouteFound len shp\<close>: the first row of \<open>CFRoutes\<close>, with its \<open>Total_Length\<close> and shape;
  \<^item> \<open>NoRoute\<close>: \<open>CFRoutes\<close> is empty and \<open>sc2.next()\<close> raises \<open>StopIteration\<close>;
  \<^item> \<open>Failure\<close>: any other exception inside the \<open>try\<close>, caught by the bare \<open>except\<close>
    before \<open>key\<close> is assigned (the \<open>Delete_management\<close> of line 176 is taken to succeed
    after it).
  The solver itself is a tool of the platform; its outcome for a business and a bridge
  is a parameter of the model.
\<close>

datatype cf_result = RouteFound "real option" "geometry option" | NoRoute | Failure

text \<open>\<open>routeRow[1]\<close> and \<open>routeRow[2]\<close> after lines 153--164.\<close>

fun routeRow :: "cf_result \<Rightarrow> real option \<times> geometry option" where
  "routeRow (RouteFound len shp) = (len, shp)"
| "routeRow NoRoute = (None, None)"
| "routeRow Failure = (None, None)"

text \<open>
  The variable \<open>key\<close> after lines 153--164: assigned at the end of the \<open>try\<close> block, and left
  as it was (\<open>None\<close> while still unbound) when the bare \<open>except\<close> is taken.
\<close>

fun next_key :: "string option \<Rightarrow> int \<Rightarrow> string \<Rightarrow> cf_result \<Rightarrow> string option" where
  "next_key key detourBusID removeBridgeNum Failure = key"
| "next_key key detourBusID removeBridgeNum res = Some (format_key detourBusID removeBridgeNum)"

text \<open>The update cursor of lines 167--173: every row whose key matches is overwritten.\<close>

definition update_rows :: "string \<Rightarrow> real option \<times> geometry option \<Rightarrow> bb_row list \<Rightarrow> bb_row list" where
  "update_rows key rr detours =
     map (\<lambda>detoursRow.
            if detKey detoursRow = key
            then detoursRow\<lparr>No_Bridge_Time := fst rr, SHAPE := snd rr\<rparr>
            else detoursRow) detours"

text \<open>
  One pass of the inner loop body (lines 110--184). The state that survives the pass is the
  variable \<open>key\<close> and the table. Reading an unbound \<open>key\<close> at line 170 raises \<open>NameError\<close>,
  which nothing catches; an empty table never reads it.
\<close>

definition detour_step ::
  "(int \<Rightarrow> string \<Rightarrow> cf_result) \<Rightarrow> string option \<times> bb_row list \<Rightarrow> int \<times> string
     \<Rightarrow> py_error + (string option \<times> bb_row list)" where
  "detour_step solve st pair =
     (let res = solve (fst pair) (snd pair);
          key = next_key (fst st) (fst pair) (snd pair) res
      in if snd st = [] then Inr (key, snd st)
         else (case key of
                 None \<Rightarrow> Inl NameError
               | Some k \<Rightarrow> Inr (key, update_rows k (routeRow res) (snd st))))"

fun detour_loop ::
  "(int \<Rightarrow> string \<Rightarrow> cf_result) \<Rightarrow> string option \<times> bb_row list \<Rightarrow> (int \<times> string) list
     \<Rightarrow> py_error + (string option \<times> bb_row list)" where
  "detour_loop solve st [] = Inr st"
| "detour_loop solve st (pair # pairs) =
     (case detour_step solve st pair of
        Inl e \<Rightarrow> Inl e
      | Inr st' \<Rightarrow> detour_loop solve st' pairs)"

text \<open>
  \<open>busDict\<close> (lines 99--105): for each business the bridges of its rows, in row order; a
  Python dict keeps its keys in insertion order.
\<close>

fun busDict_add :: "(int \<times> string list) list \<Rightarrow> int \<Rightarrow> string \<Rightarrow> (int \<times> string list) list" where
  "busDict_add [] b br = [(b, [br])]"
| "busDict_add ((b', brs) # d) b br =
     (if b' = b then (b', brs @ [br]) # d else (b', brs) # busDict_add d b br)"

definition busDict :: "bb_row list \<Rightarrow> (int \<times> string list) list" where
  "busDict detours = foldl (\<lambda>d row. busDict_add d (Business_ID row) (BRDG_NBR row)) [] detours"

text \<open>The pairs visited by the two nested \<open>for\<close> loops of lines 108--109, in order.\<close>

definition detour_pairs :: "bb_row list \<Rightarrow> (int \<times> string) list" where
  "detour_pairs detours = concat (map (\<lambda>(b, brs). map (Pair b) brs) (busDict detours))"

text \<open>The three field calculations of lines 186--200, row by row.\<close>

definition calc_DET_TIME :: "bb_row \<Rightarrow> bb_row" where
  "calc_DET_TIME r = r\<lparr>DET_TIME := CalculateField (py_sub (No_Bridge_Time r) (Base_Length r))\<rparr>"

definition calc_JOB_DET_TIME :: "bb_row \<Rightarrow> bb_row" where
  "calc_JOB_DET_TIME r = r\<lparr>JOB_DET_TIME := CalculateField (py_mul (DET_TIME r) (Truck_Int r))\<rparr>"

definition calc_DISTW_JOB_DET_TIME :: "bb_row \<Rightarrow> bb_row" where
  "calc_DISTW_JOB_DET_TIME r =
     r\<lparr>DISTW_JOB_DET_TIME := CalculateField (py_mul (DET_TIME r) (Truck_Int_DW r))\<rparr>"

definition detour_metrics :: "bb_row list \<Rightarrow> bb_row list" where
  "detour_metrics detours =
     map calc_DISTW_JOB_DET_TIME (map calc_JOB_DET_TIME (map calc_DET_TIME detours))"

text \<open>
  The body of the outer loop for one destination set (lines 84--200): copy the bridge
  table, add \<open>No_Bridge_Time\<close> (NULL in every row), run the barred solves, calculate the
  metrics. The variable \<open>key\<close> is a module variable and is carried from one destination
  set to the next.
\<close>

definition detours_dest ::
  "(int \<Rightarrow> string \<Rightarrow> cf_result) \<Rightarrow> string option \<Rightarrow> bb_row list
     \<Rightarrow> py_error + (string option \<times> bb_row list)" where
  "detours_dest solve key bridgeTable =
     (let detours = map (\<lambda>r. r\<lparr>No_Bridge_Time := None\<rparr>) bridgeTable
      in case detour_loop solve (key, detours) (detour_pairs detours) of
           Inl e \<Rightarrow> Inl e
         | Inr (key', detours') \<Rightarrow> Inr (key', detour_metrics detours'))"


section \<open>The bridge feature class and the summary tools\<close>

text \<open>
  A feature of \<open>Weight_Restricted_Bridges\<close>: its bridge number and the numeric attributes
  by field name. The feature class lists the names of its numeric fields other than the
  key, in the order in which they were added.
\<close>

record bridge =
  bridge_NBR :: "string option"
  attrs :: "string \<Rightarrow> field_value"

record bridges_fc =
  field_names :: "string list"
  features :: "bridge list"

text \<open>
  \<open>Frequency_analysis\<close> by bridge number: one output row for each bridge number that
  occurs, with the number of rows and the sum of each summary field over them. How the
  tool sums a field (it leaves NULLs out) is a parameter, \<open>fsum\<close>.
\<close>

definition Frequency ::
  "(field_value list \<Rightarrow> field_value) \<Rightarrow> (bb_row \<Rightarrow> field_value) list \<Rightarrow> bb_row list
     \<Rightarrow> (string \<times> nat \<times> field_value list) list" where
  "Frequency fsum summary_fields tbl =
     map (\<lambda>k. let grp = filter (\<lambda>r. BRDG_NBR r = k) tbl
               in (k, length grp, map (\<lambda>f. fsum (map f grp)) summary_fields))
       (remdups (map BRDG_NBR tbl))"

text \<open>
  \<open>JoinField_management\<close> onto the bridges by bridge number: the listed fields are added;
  a bridge takes the values of the first row with its number and NULL when there is
  none. A NULL bridge number matches nothing. The model is of a join whose field names
  are new to the bridges; the theorems on joined fields state that as a hypothesis.
\<close>

definition join_values :: "(string \<times> 'a) list \<Rightarrow> bridge \<Rightarrow> 'a option" where
  "join_values tbl br = (case bridge_NBR br of None \<Rightarrow> None | Some k \<Rightarrow> map_of tbl k)"

fun set_attrs :: "(string \<times> field_value) list \<Rightarrow> (string \<Rightarrow> field_value) \<Rightarrow> (string \<Rightarrow> field_value)" where
  "set_attrs [] a = a"
| "set_attrs ((name, v) # nvs) a = set_attrs nvs (a(name := v))"

definition JoinField ::
  "string list \<Rightarrow> (string \<times> field_value list) list \<Rightarrow> bridges_fc \<Rightarrow> bridges_fc" where
  "JoinField names tbl fc =
     \<lparr>field_names = field_names fc @ names,
      features = map (\<lambda>br. br\<lparr>attrs :=
          (case join_values tbl br of
             None \<Rightarrow> set_attrs (map (\<lambda>n. (n, None)) names) (attrs br)
           | Some vs \<Rightarrow> set_attrs (zip names vs) (attrs br))\<rparr>) (features fc)\<rparr>"

section \<open>Detours script: the whole run\<close>

text \<open>
  The geodatabase as far as the scripts read and write it: the businesses, the bridges,
  and the business-by-bridge tables \<open>Bridges_by_Bus_<dest>\<close> by destination set. In a
  business, \<open>bus_Truck_Int\<close> is the field \<open>Truck_Int\<close>, NULL while it has not been calculated.
\<close>

record business =
  bus_OBJECTID :: int
  POINT_X :: "real option"
  POINT_Y :: "real option"
  Truck_Int_Raw :: "real option"
  bus_Truck_Int :: "real option"

record gdb =
  businesses :: "business list"
  bridges :: bridges_fc
  Bridges_by_Bus :: "(string \<times> bb_row list) list"

text \<open>
  The outer loop (lines 84--200) over the destination sets, producing the \<open>detours_<dest>\<close>
  tables. A destination set without a bridge table makes \<open>Copy_management\<close> fail.
\<close>

fun detours_tables ::
  "(string \<Rightarrow> int \<Rightarrow> string \<Rightarrow> cf_result) \<Rightarrow> (string \<times> bb_row list) list \<Rightarrow> string option
     \<Rightarrow> string list \<Rightarrow> py_error + (string \<times> bb_row list) list" where
  "detours_tables solve tables key [] = Inr []"
| "detours_tables solve tables key (dest # dests) =
     (case map_of tables dest of
        None \<Rightarrow> Inl ExecuteError
      | Some bridgeTable \<Rightarrow>
          (case detours_dest (solve dest) key bridgeTable of
             Inl e \<Rightarrow> Inl e
           | Inr (key', detours) \<Rightarrow>
               (case detours_tables solve tables key' dests of
                  Inl e \<Rightarrow> Inl e
                | Inr rest \<Rightarrow> Inr ((dest, detours) # rest))))"

text \<open>
  Lines 202--216: merge the detour tables, sum the three metrics by bridge, and join the
  sums to the bridges. The field names of line 207 are variables assigned inside the
  loop, so a run over no destination set raises \<open>NameError\<close> there.
\<close>

definition Detours_by_Bridge ::
  "(field_value list \<Rightarrow> field_value) \<Rightarrow> (string \<times> bb_row list) list
     \<Rightarrow> (string \<times> nat \<times> field_value list) list" where
  "Detours_by_Bridge fsum detours =
     Frequency fsum [DET_TIME, JOB_DET_TIME, DISTW_JOB_DET_TIME] (concat (map snd detours))"

definition detours_script ::
  "(string \<Rightarrow> int \<Rightarrow> string \<Rightarrow> cf_result) \<Rightarrow> (field_value list \<Rightarrow> field_value)
     \<Rightarrow> string list \<Rightarrow> gdb \<Rightarrow> py_error + (gdb \<times> (string \<times> bb_row list) list)" where
  "detours_script solve fsum dests g =
     (case detours_tables solve (Bridges_by_Bus g) None dests of
        Inl e \<Rightarrow> Inl e
      | Inr detours \<Rightarrow>
          if dests = [] then Inl NameError
          else Inr (g\<lparr>bridges :=
                      JoinField [''DET_TIME_SUM'', ''JOB_DET_TIME_SUM'', ''DISTW_JOB_DET_TIME_SUM'']
                        (map (\<lambda>(k, n, totals). (k, totals)) (Detours_by_Bridge fsum detours))
                        (bridges g)\<rparr>, detours))"

section \<open>Traversals script: the module does not compile\<close>

text \<open>
  Python compiles a module as a whole before it runs its first statement. A logical line
  that is no statement ends the run with \<open>SyntaxError\<close>, and nothing has been done: no
  geodatabase copied, no field added. A line is modelled by its tokens.
\<close>

datatype token = NAME string | STRING string | NUMBER string | OP string | KEYWORD string

text \<open>
  Two rules that every logical line of a module obeys. A statement does not begin with a
  comma or a binary operator; and two operands never stand side by side, but for adjacent
  string literals, which are joined. The rules are necessary for a line to compile, not
  sufficient.
\<close>

fun opens_statement :: "token \<Rightarrow> bool" where
  "opens_statement (OP s) = (s \<in> set [''('', ''['', ''{'', ''-'', ''+'', ''~'', ''*'', ''@''])"
| "opens_statement t = True"

fun operand :: "token \<Rightarrow> bool" where
  "operand (NAME s) = True"
| "operand (STRING s) = True"
| "operand (NUMBER s) = True"
| "operand t = False"

fun string_literal :: "token \<Rightarrow> bool" where
  "string_literal (STRING s) = True"
| "string_literal t = False"

fun adjacent_operands :: "token list \<Rightarrow> bool" where
  "adjacent_operands (a # b # ts) =
     ((operand a \<and> operand b \<and> \<not> (string_literal a \<and> string_literal b))
      \<or> adjacent_operands (b # ts))"
| "adjacent_operands ts = False"

definition line_compiles :: "token list \<Rightarrow> bool" where
  "line_compiles ts =
     (case ts of [] \<Rightarrow> True | t # _ \<Rightarrow> opens_statement t \<and> \<not> adjacent_operands ts)"

text \<open>
  Line 125 of the traversals script, as it is in the file:
  \<^verbatim>\<open>, thou    descNet = arcpy.Describe(inNetworkDataset)\<close>
\<close>

definition traversals_line_125 :: "token list" where
  "traversals_line_125 =
     [OP '','', NAME ''thou'', NAME ''descNet'', OP ''='', NAME ''arcpy'', OP ''.'',
      NAME ''Describe'', OP ''('', NAME ''inNetworkDataset'', OP '')'']"

text \<open>
  Line 208 of the traversals script, as it is in the file:
  \<^verbatim>\<open>    busY = "Business_Y"income\<close>
\<close>

definition traversals_line_208 :: "token list" where
  "traversals_line_208 = [NAME ''busY'', OP ''='', STRING ''Business_Y'', NAME ''income'']"

text \<open>
  For comparison, line 135 of the detours script, which holds the statement of line 125
  alone: \<^verbatim>\<open>descNet = arcpy.Describe(inNetworkDataset)\<close>
\<close>

definition detours_line_135 :: "token list" where
  "detours_line_135 =
     [NAME ''descNet'', OP ''='', NAME ''arcpy'', OP ''.'', NAME ''Describe'', OP ''('',
      NAME ''inNetworkDataset'', OP '')'']"

text \<open>
  The run of a module on a state: its statements, \<open>body\<close>, run only when every line
  compiles.
\<close>

definition run_module ::
  "token list list \<Rightarrow> ('s \<Rightarrow> py_error option \<times> 's) \<Rightarrow> 's \<Rightarrow> py_error option \<times> 's" where
  "run_module lines body s =
     (if list_all line_compiles lines then body s else (Some SyntaxError, s))"

text \<open>
  The traversals script: the two lines above with the rest of the file, whose lines are
  statements. What the statements would do to the geodatabase is the parameter \<open>body\<close>;
  the result is the exception that ends the run, if any, and the geodatabase after it.
\<close>

definition traversals_lines :: "(nat \<times> token list) list" where
  "traversals_lines = [(125, traversals_line_125), (208, traversals_line_208)]"

definition traversals_script ::
  "(gdb \<Rightarrow> py_error option \<times> gdb) \<Rightarrow> gdb \<Rightarrow> py_error option \<times> gdb" where
  "traversals_script body g = run_module (map snd traversals_lines) body g"

section \<open>The invariant of the detour loop\<close>

text \<open>
  A table keeps its cut-off pairs NULL when every row whose business and bridge the solver
  cannot connect without the bridge has a NULL \<open>No_Bridge_Time\<close>.
\<close>

definition cut_off_kept :: "(int \<Rightarrow> string \<Rightarrow> cf_result) \<Rightarrow> bb_row list \<Rightarrow> bool" where
  "cut_off_kept solve t \<longleftrightarrow>
     (\<forall>r\<in>set t. solve (Business_ID r) (BRDG_NBR r) = NoRoute \<longrightarrow> No_Bridge_Time r = None)"

section \<open>A worked example\<close>

text \<open>
  Two destination sets, two businesses and two bridges. The route of business 7 crosses
  bridge B1 towards both destination sets, with baseline costs 2 and 9; no route crosses
  bridge B2. Business 7 has raw trucking intensity 20, hence 10 for each destination set,
  and is two miles from B1. Without B1, business 7 reaches the northern destinations in 5
  and has no route to the southern ones.
\<close>

definition ex_dests :: "string list" where
  "ex_dests = [''North'', ''South'']"

text \<open>The row of business 7 and bridge B1 in a bridge table, with the given baseline cost.\<close>

definition ex_row :: "real \<Rightarrow> bb_row" where
  "ex_row base =
     \<lparr>OBJECTID = 1, Business_ID = 7, BRDG_NBR = ''B1'', Bridge_X = Some 3, Bridge_Y = Some 4,
      Base_Length = Some base, SHAPE = Some [(0, 0), (3, 4)], Business_X = Some 0,
      Business_Y = Some 0, Truck_Int = Some 10, BUS_TO_BRIDGE_MU = Some 10560,
      BUS_TO_BRIDGE_MI = Some 2, Truck_Int_DW = Some 5, No_Bridge_Time = None, DET_TIME = None,
      JOB_DET_TIME = None, DISTW_JOB_DET_TIME = None\<rparr>"

text \<open>The geodatabase that the traversals script is started on: no bridge table yet.\<close>

definition ex_source :: gdb where
  "ex_source =
     \<lparr>businesses =
        [\<lparr>bus_OBJECTID = 7, POINT_X = Some 0, POINT_Y = Some 0, Truck_Int_Raw = Some 20,
          bus_Truck_Int = None\<rparr>,
         \<lparr>bus_OBJECTID = 8, POINT_X = Some 1, POINT_Y = Some 1, Truck_Int_Raw = Some 6,
          bus_Truck_Int = None\<rparr>],
      bridges =
        \<lparr>field_names = [''AADT''],
         features = [\<lparr>bridge_NBR = Some ''B1'', attrs = (\<lambda>f. None)\<rparr>,
                     \<lparr>bridge_NBR = Some ''B2'', attrs = (\<lambda>f. None)\<rparr>]\<rparr>,
      Bridges_by_Bus = []\<rparr>"

text \<open>A geodatabase for the detours script: the same, with the two bridge tables.\<close>

definition ex_gdb :: gdb where
  "ex_gdb =
     \<lparr>businesses =
        [\<lparr>bus_OBJECTID = 7, POINT_X = Some 0, POINT_Y = Some 0, Truck_Int_Raw = Some 20,
          bus_Truck_Int = Some 10\<rparr>,
         \<lparr>bus_OBJECTID = 8, POINT_X = Some 1, POINT_Y = Some 1, Truck_Int_Raw = Some 6,
          bus_Truck_Int = Some 3\<rparr>],
      bridges =
        \<lparr>field_names = [''AADT''],
         features = [\<lparr>bridge_NBR = Some ''B1'', attrs = (\<lambda>f. None)\<rparr>,
                     \<lparr>bridge_NBR = Some ''B2'', attrs = (\<lambda>f. None)\<rparr>]\<rparr>,
      Bridges_by_Bus = [(''North'', [ex_row 2]), (''South'', [ex_row 9])]\<rparr>"

definition ex_solve :: "string \<Rightarrow> int \<Rightarrow> string \<Rightarrow> cf_result" where
  "ex_solve dest b br = (if dest = ''North'' then RouteFound (Some 5) None else NoRoute)"

text \<open>A sum of a summary field that leaves the NULLs out.\<close>

definition ex_fsum :: "field_value list \<Rightarrow> field_value" where
  "ex_fsum vs = Some (sum_list (List.map_filter id vs))"

definition ex_detours :: "(string \<times> bb_row list) list" where
  "ex_detours =
     [(''North'', [(ex_row 2)\<lparr>SHAPE := None, No_Bridge_Time := Some 5, DET_TIME := Some 3,
                     JOB_DET_TIME := Some 30, DISTW_JOB_DET_TIME := Some 15\<rparr>]),
      (''South'', [(ex_row 9)\<lparr>SHAPE := None\<rparr>])]"

definition ex_north :: bb_row where
  "ex_north = (ex_row 2)\<lparr>SHAPE := None, No_Bridge_Time := Some 5, DET_TIME := Some 3,
                 JOB_DET_TIME := Some 30, DISTW_JOB_DET_TIME := Some 15\<rparr>"

definition ex_south :: bb_row where
  "ex_south = (ex_row 9)\<lparr>SHAPE := None\<rparr>"

text \<open>
  A table of two pairs for one destination set, and a solver whose route for business 7
  without B1 costs 5, while the pass for business 8 and B2 raises inside the \<open>try\<close> block.
\<close>

definition ex_two_rows :: "bb_row list" where
  "ex_two_rows =
     [ex_row 2, (ex_row 4)\<lparr>OBJECTID := 2, Business_ID := 8, BRDG_NBR := ''B2''\<rparr>]"

definition ex_stale_solve :: "int \<Rightarrow> string \<Rightarrow> cf_result" where
  "ex_stale_solve b br = (if b = 7 then RouteFound (Some 5) (Some [(0, 0), (7, 7)]) else Failure)"

section \<open>Lemmas\<close>

subsection \<open>Composite keys are injective\<close>

lemma digit_char_inj: "a < 10 \<Longrightarrow> b < 10 \<Longrightarrow> digit_char a = digit_char b \<Longrightarrow> a = b"
  unfolding digit_char_def by (simp split: if_splits) arith

lemma digit_char_not_sep: "digit_char d \<noteq> CHR '','' \<and> digit_char d \<noteq> CHR ''-''"
  unfolding digit_char_def by simp

lemma str_nat_not_Nil: "str_nat n \<noteq> []"
  by (subst str_nat.simps) simp

lemma str_nat_chars: "c \<in> set (str_nat n) \<Longrightarrow> c \<noteq> CHR '','' \<and> c \<noteq> CHR ''-''"
proof (induction n rule: str_nat.induct)
  case (1 n)
  show ?case
  proof (cases "n < 10")
    case True
    with "1.prems" show ?thesis
      by (subst (asm) str_nat.simps) (simp add: digit_char_not_sep)
  next
    case False
    with "1.prems" have "c \<in> set (str_nat (n div 10)) \<or> c = digit_char (n mod 10)"
      by (subst (asm) str_nat.simps) auto
    with "1.IH" False show ?thesis
      by (auto simp: digit_char_not_sep)
  qed
qed

lemma str_nat_inj: "str_nat n = str_nat m \<Longrightarrow> n = m"
proof (induction n arbitrary: m rule: str_nat.induct)
  case (1 n)
  show ?case
  proof (cases "n < 10")
    case True
    note n = this
    show ?thesis
    proof (cases "m < 10")
      case True
      with n "1.prems" show ?thesis
        by (subst (asm) str_nat.simps, subst (asm) (2) str_nat.simps) (simp add: digit_char_inj)
    next
      case False
      with n "1.prems" have "[digit_char n] = str_nat (m div 10) @ [digit_char (m mod 10)]"
        by (subst (asm) str_nat.simps, subst (asm) (2) str_nat.simps) simp
      then show ?thesis using str_nat_not_Nil [of "m div 10"] by auto
    qed
  next
    case False
    note n = this
    show ?thesis
    proof (cases "m < 10")
      case True
      with n "1.prems" have "str_nat (n div 10) @ [digit_char (n mod 10)] = [digit_char m]"
        by (subst (asm) str_nat.simps, subst (asm) (2) str_nat.simps) simp
      then show ?thesis using str_nat_not_Nil [of "n div 10"] by auto
    next
      case False
      with n "1.prems" have "str_nat (n div 10) @ [digit_char (n mod 10)]
          = str_nat (m div 10) @ [digit_char (m mod 10)]"
        by (subst (asm) str_nat.simps, subst (asm) (2) str_nat.simps) simp
      then have a: "str_nat (n div 10) = str_nat (m div 10)"
        and b: "digit_char (n mod 10) = digit_char (m mod 10)" by simp_all
      from "1.IH" [OF n a] have "n div 10 = m div 10" .
      moreover from b have "n mod 10 = m mod 10" by (simp add: digit_char_inj)
      ultimately show ?thesis by (metis div_mult_mod_eq)
    qed
  qed
qed

lemma str_int_chars: "CHR '','' \<notin> set (str_int i)"
  unfolding str_int_def using str_nat_chars by auto

lemma str_int_inj: "str_int i = str_int j \<Longrightarrow> i = j"
proof -
  assume e: "str_int i = str_int j"
  have hd_nat: "\<And>n. hd (str_nat n) \<noteq> CHR ''-''"
    using str_nat_chars str_nat_not_Nil by (metis hd_in_set)
  show ?thesis
  proof (cases "i < 0")
    case True
    note i = this
    show ?thesis
    proof (cases "j < 0")
      case True
      with i e have "str_nat (nat (- i)) = str_nat (nat (- j))" by (simp add: str_int_def)
      then have "nat (- i) = nat (- j)" by (rule str_nat_inj)
      with i True show ?thesis by simp
    next
      case False
      with i e have "CHR ''-'' # str_nat (nat (- i)) = str_nat (nat j)" by (simp add: str_int_def)
      then have "hd (str_nat (nat j)) = CHR ''-''" by (metis list.sel(1))
      with hd_nat show ?thesis by simp
    qed
  next
    case False
    note i = this
    show ?thesis
    proof (cases "j < 0")
      case True
      with i e have "str_nat (nat i) = CHR ''-'' # str_nat (nat (- j))" by (simp add: str_int_def)
      then have "hd (str_nat (nat i)) = CHR ''-''" by (metis list.sel(1))
      with hd_nat show ?thesis by simp
    next
      case False
      with i e have "str_nat (nat i) = str_nat (nat j)" by (simp add: str_int_def)
      then have "nat i = nat j" by (rule str_nat_inj)
      with i False show ?thesis by simp
    qed
  qed
qed

lemma sep_split: "c \<notin> set a \<Longrightarrow> c \<notin> set b \<Longrightarrow> a @ c # x = b @ c # y \<Longrightarrow> a = b \<and> x = y"
proof (induction a arbitrary: b)
  case Nil
  then show ?case by (cases b) auto
next
  case (Cons h t)
  then show ?case by (cases b) auto
qed

lemma format_key_inj: "format_key b br = format_key b' br' \<longleftrightarrow> b = b' \<and> br = br'"
  unfolding format_key_def using sep_split [of "CHR '',''" "str_int b" "str_int b'" br br']
    str_int_chars str_int_inj by auto

subsection \<open>The detour tables\<close>

lemma detours_tables_mem:
  "detours_tables solve tables key dests = Inr out \<Longrightarrow> (d, t) \<in> set out \<Longrightarrow>
     \<exists>k tbl k'. map_of tables d = Some tbl \<and> detours_dest (solve d) k tbl = Inr (k', t)"
proof (induction dests arbitrary: key out)
  case Nil
  then show ?case by simp
next
  case (Cons dest dests)
  from Cons.prems(1) obtain tbl k' t0 rest where
    a: "map_of tables dest = Some tbl" and
    b: "detours_dest (solve dest) key tbl = Inr (k', t0)" and
    c: "detours_tables solve tables k' dests = Inr rest" and
    d: "out = (dest, t0) # rest"
    by (auto split: option.splits sum.splits)
  from Cons.prems(2) d have "(d, t) = (dest, t0) \<or> (d, t) \<in> set rest" by simp
  then show ?case
  proof
    assume "(d, t) = (dest, t0)"
    with a b show ?thesis by blast
  next
    assume "(d, t) \<in> set rest"
    from Cons.IH [OF c this] show ?thesis .
  qed
qed

lemma detours_script_mem:
  "detours_script solve fsum dests g = Inr (g', out) \<Longrightarrow> (d, t) \<in> set out \<Longrightarrow>
     \<exists>k tbl k'. map_of (Bridges_by_Bus g) d = Some tbl \<and> detours_dest (solve d) k tbl = Inr (k', t)"
proof -
  assume a: "detours_script solve fsum dests g = Inr (g', out)" and m: "(d, t) \<in> set out"
  from a have "detours_tables solve (Bridges_by_Bus g) None dests = Inr out"
    by (auto simp: detours_script_def split: sum.splits if_splits)
  from detours_tables_mem [OF this m] show ?thesis .
qed

lemma detours_dest_metrics:
  "detours_dest solve key tbl = Inr (key', t) \<Longrightarrow> \<exists>t0. t = detour_metrics t0"
  unfolding detours_dest_def by (auto simp: Let_def split: sum.splits)

lemma detour_metrics_fields:
  assumes "r \<in> set (detour_metrics t0)"
  shows "DET_TIME r = CalculateField (py_sub (No_Bridge_Time r) (Base_Length r))"
    and "JOB_DET_TIME r = CalculateField (py_mul (DET_TIME r) (Truck_Int r))"
    and "DISTW_JOB_DET_TIME r = CalculateField (py_mul (DET_TIME r) (Truck_Int_DW r))"
  using assms
  by (auto simp: detour_metrics_def calc_DET_TIME_def calc_JOB_DET_TIME_def
      calc_DISTW_JOB_DET_TIME_def)

subsection \<open>The detour loop keeps an unreachable pair NULL\<close>

lemma update_rows_ids:
  "map Business_ID (update_rows k rr t) = map Business_ID t"
  "map BRDG_NBR (update_rows k rr t) = map BRDG_NBR t"
  "map detKey (update_rows k rr t) = map detKey t"
  unfolding update_rows_def detKey_def by (induction t) auto

lemma detKey_eq: "detKey r = format_key b br \<longleftrightarrow> Business_ID r = b \<and> BRDG_NBR r = br"
  unfolding detKey_def by (rule format_key_inj)

lemma detour_step_kept:
  assumes "detour_step solve (k, t) (b, br) = Inr (k', t')" and "cut_off_kept solve t"
  shows "cut_off_kept solve t'"
proof (cases "t = []")
  case True
  with assms show ?thesis by (simp add: detour_step_def Let_def)
next
  case False
  with assms(1) obtain kk where kk: "next_key k b br (solve b br) = Some kk"
    and t': "t' = update_rows kk (routeRow (solve b br)) t"
    by (auto simp: detour_step_def Let_def split: option.splits)
  show ?thesis
    unfolding cut_off_kept_def
  proof (intro ballI impI)
    fix r assume r: "r \<in> set t'" and cut: "solve (Business_ID r) (BRDG_NBR r) = NoRoute"
    from r t' obtain r0 where r0: "r0 \<in> set t"
      and rr: "r = (if detKey r0 = kk
                    then r0\<lparr>No_Bridge_Time := fst (routeRow (solve b br)),
                             SHAPE := snd (routeRow (solve b br))\<rparr>
                    else r0)"
      by (auto simp: update_rows_def)
    show "No_Bridge_Time r = None"
    proof (cases "detKey r0 = kk")
      case False
      with rr have "r = r0" by simp
      with r0 cut assms(2) show ?thesis by (simp add: cut_off_kept_def)
    next
      case True
      with rr have nb: "No_Bridge_Time r = fst (routeRow (solve b br))"
        and ids: "Business_ID r = Business_ID r0" "BRDG_NBR r = BRDG_NBR r0" by simp_all
      show ?thesis
      proof (cases "solve b br")
        case (RouteFound len shp)
        with kk have "kk = format_key b br" by simp
        with True have "Business_ID r0 = b \<and> BRDG_NBR r0 = br" by (simp add: detKey_eq)
        with ids cut RouteFound show ?thesis by simp
      next
        case NoRoute
        with nb show ?thesis by simp
      next
        case Failure
        with nb show ?thesis by simp
      qed
    qed
  qed
qed

lemma detour_loop_kept:
  "detour_loop solve (k, t) pairs = Inr (k', t') \<Longrightarrow> cut_off_kept solve t
     \<Longrightarrow> cut_off_kept solve t'"
proof (induction pairs arbitrary: k t)
  case Nil
  then show ?case by simp
next
  case (Cons pair pairs)
  from Cons.prems(1) obtain k1 t1 where
    s: "detour_step solve (k, t) pair = Inr (k1, t1)" and
    l: "detour_loop solve (k1, t1) pairs = Inr (k', t')"
    by (auto split: sum.splits)
  from s Cons.prems(2) have "cut_off_kept solve t1"
    using detour_step_kept [of solve k t "fst pair" "snd pair" k1 t1] by simp
  with l show ?case by (rule Cons.IH)
qed

lemma detour_metrics_ids:
  "r \<in> set (detour_metrics t) \<Longrightarrow>
     \<exists>r0\<in>set t. Business_ID r = Business_ID r0 \<and> BRDG_NBR r = BRDG_NBR r0
        \<and> No_Bridge_Time r = No_Bridge_Time r0"
  by (auto simp: detour_metrics_def calc_DET_TIME_def calc_JOB_DET_TIME_def
      calc_DISTW_JOB_DET_TIME_def)

lemma detours_dest_cut_off:
  assumes "detours_dest solve key tbl = Inr (key', t)" and "r \<in> set t"
    and "solve (Business_ID r) (BRDG_NBR r) = NoRoute"
  shows "No_Bridge_Time r = None"
proof -
  define t0 where "t0 = map (\<lambda>r. r\<lparr>No_Bridge_Time := None\<rparr>) tbl"
  from assms(1) obtain t1 where
    l: "detour_loop solve (key, t0) (detour_pairs t0) = Inr (key', t1)" and
    t: "t = detour_metrics t1"
    by (auto simp: detours_dest_def t0_def Let_def split: sum.splits)
  have "cut_off_kept solve t0" by (auto simp: cut_off_kept_def t0_def)
  with l have k: "cut_off_kept solve t1" by (rule detour_loop_kept)
  from assms(2) t obtain r0 where "r0 \<in> set t1" "Business_ID r = Business_ID r0"
    "BRDG_NBR r = BRDG_NBR r0" "No_Bridge_Time r = No_Bridge_Time r0"
    using detour_metrics_ids by blast
  with k assms(3) show ?thesis by (simp add: cut_off_kept_def)
qed

lemma detour_step_NoRoute:
  "solve b br = NoRoute \<Longrightarrow> \<exists>st'. detour_step solve st (b, br) = Inr st'"
  by (simp add: detour_step_def Let_def)

lemma completed_pass_writeback:
  assumes "solve b br \<noteq> Failure"
    and "detour_step solve (key, detours) (b, br) = Inr (key', detours')"
  shows "length detours' = length detours
       \<and> (\<forall>i<length detours.
            (detKey (detours ! i) = format_key b br \<longrightarrow>
               detours' ! i = (detours ! i)\<lparr>No_Bridge_Time := fst (routeRow (solve b br)),
                                            SHAPE := snd (routeRow (solve b br))\<rparr>)
          \<and> (detKey (detours ! i) \<noteq> format_key b br \<longrightarrow> detours' ! i = detours ! i))
       \<and> (\<forall>i<length detours. \<forall>j<length detours.
            detKey (detours ! i) = format_key b br \<and> detKey (detours ! j) = detKey (detours ! i) \<longrightarrow>
              No_Bridge_Time (detours' ! i) = No_Bridge_Time (detours' ! j)
            \<and> SHAPE (detours' ! i) = SHAPE (detours' ! j))
       \<and> (\<forall>b' br'. format_key b' br' = format_key b br \<longrightarrow> b' = b \<and> br' = br)"
proof -
  from assms(1) have k: "next_key key b br (solve b br) = Some (format_key b br)"
    by (cases "solve b br") simp_all
  with assms(2) have d: "detours' = update_rows (format_key b br) (routeRow (solve b br)) detours"
    by (cases "detours = []") (auto simp: detour_step_def Let_def update_rows_def)
  then show ?thesis by (simp add: update_rows_def format_key_inj)
qed

subsection \<open>Fields joined to the bridges\<close>

lemma set_attrs_other: "f \<notin> fst ` set nvs \<Longrightarrow> set_attrs nvs a f = a f"
  by (induction nvs arbitrary: a) auto

lemma set_attrs_None:
  "f \<in> set names \<Longrightarrow> set_attrs (map (\<lambda>n. (n, None)) names) a f = None"
proof (induction names arbitrary: a)
  case Nil
  then show ?case by simp
next
  case (Cons n names)
  show ?case
  proof (cases "f \<in> set names")
    case True
    then show ?thesis by (simp add: Cons.IH)
  next
    case False
    with Cons.prems have "f = n" by simp
    moreover from False have "f \<notin> fst ` set (map (\<lambda>n. (n, None :: field_value)) names)"
      by (simp add: image_comp comp_def)
    ultimately show ?thesis by (simp add: set_attrs_other)
  qed
qed

lemma JoinField_simps:
  "field_names (JoinField names tbl fc) = field_names fc @ names"
  "length (features (JoinField names tbl fc)) = length (features fc)"
  "map bridge_NBR (features (JoinField names tbl fc)) = map bridge_NBR (features fc)"
  by (simp_all add: JoinField_def comp_def)

lemma JoinField_other:
  assumes "i < length (features fc)" and "f \<notin> set names"
  shows "attrs (features (JoinField names tbl fc) ! i) f = attrs (features fc ! i) f"
proof -
  have a: "f \<notin> fst ` set (map (\<lambda>n. (n, None :: field_value)) names)"
    using assms(2) by (simp add: image_comp comp_def)
  have b: "\<And>vs :: field_value list. f \<notin> fst ` set (zip names vs)"
    using assms(2) by (auto dest: set_zip_leftD)
  from assms(1) show ?thesis
    by (simp add: JoinField_def set_attrs_other [OF a] set_attrs_other [OF b] split: option.splits)
qed

lemma JoinField_None:
  assumes "i < length (features fc)" and "f \<in> set names"
    and "join_values tbl (features fc ! i) = None"
  shows "attrs (features (JoinField names tbl fc) ! i) f = None"
  using assms by (simp add: JoinField_def set_attrs_None)

lemma Detours_by_Bridge_keys:
  "fst ` set (map (\<lambda>(k, n, totals). (k, totals)) (Detours_by_Bridge fsum detours))
     = BRDG_NBR ` set (concat (map snd detours))"
  by (force simp: Detours_by_Bridge_def Frequency_def Let_def image_iff)

lemma detours_script_bridges:
  assumes "detours_script solve fsum dests g = Inr (g', detours)"
  shows "bridges g' = JoinField [''DET_TIME_SUM'', ''JOB_DET_TIME_SUM'', ''DISTW_JOB_DET_TIME_SUM'']
            (map (\<lambda>(k, n, totals). (k, totals)) (Detours_by_Bridge fsum detours)) (bridges g)"
    and "businesses g' = businesses g"
  using assms by (auto simp: detours_script_def split: sum.splits if_splits)

lemma detours_no_rows:
  assumes run: "detours_script solve fsum dests g = Inr (g', detours)"
    and j: "j < length (features (bridges g))"
    and none: "\<forall>r\<in>set (concat (map snd detours)). Some (BRDG_NBR r) \<noteq> bridge_NBR (features (bridges g) ! j)"
    and f: "f \<in> set [''DET_TIME_SUM'', ''JOB_DET_TIME_SUM'', ''DISTW_JOB_DET_TIME_SUM'']"
  shows "attrs (features (bridges g') ! j) f = None"
proof -
  let ?tbl = "map (\<lambda>(k, n, totals). (k, totals)) (Detours_by_Bridge fsum detours)"
  have "join_values ?tbl (features (bridges g) ! j) = None"
  proof (cases "bridge_NBR (features (bridges g) ! j)")
    case None
    then show ?thesis by (simp add: join_values_def)
  next
    case (Some k)
    with none have "k \<notin> BRDG_NBR ` set (concat (map snd detours))" by force
    then have "k \<notin> fst ` set ?tbl" using Detours_by_Bridge_keys [of fsum detours] by blast
    then have "map_of ?tbl k = None" using map_of_eq_None_iff [of ?tbl k] by blast
    with Some show ?thesis by (simp add: join_values_def)
  qed
  with j f show ?thesis
    by (simp only: detours_script_bridges(1) [OF run] JoinField_None)
qed

subsection \<open>The example run of the detours script\<close>

lemma ex_detours_tables:
  "detours_tables ex_solve (Bridges_by_Bus ex_gdb) None ex_dests = Inr ex_detours"
  by (simp add: ex_gdb_def ex_dests_def ex_detours_def ex_solve_def ex_row_def detours_dest_def
      detour_pairs_def busDict_def detour_step_def format_key_def str_int_def str_nat.simps
      digit_char_def update_rows_def detKey_def detour_metrics_def calc_DET_TIME_def
      calc_JOB_DET_TIME_def calc_DISTW_JOB_DET_TIME_def)

lemma ex_run:
  "detours_script ex_solve ex_fsum ex_dests ex_gdb
     = Inr (ex_gdb\<lparr>bridges :=
              JoinField [''DET_TIME_SUM'', ''JOB_DET_TIME_SUM'', ''DISTW_JOB_DET_TIME_SUM'']
                (map (\<lambda>(k, n, totals). (k, totals)) (Detours_by_Bridge ex_fsum ex_detours))
                (bridges ex_gdb)\<rparr>, ex_detours)"
  by (simp add: detours_script_def ex_detours_tables) (simp add: ex_dests_def)

lemma ex_members:
  "(''North'', [ex_north]) \<in> set ex_detours" "(''South'', [ex_south]) \<in> set ex_detours"
  by (simp_all add: ex_detours_def ex_north_def ex_south_def)

lemma ex_bridges:
  "length (features (bridges ex_gdb)) = 2"
  "bridge_NBR (features (bridges ex_gdb) ! 1) = Some ''B2''"
  "field_names (bridges ex_gdb) = [''AADT'']"
  by (simp_all add: ex_gdb_def)

subsection \<open>The traversals module\<close>

lemma traversals_lines_rejected:
  "\<not> line_compiles traversals_line_125" "\<not> line_compiles traversals_line_208"
  "line_compiles detours_line_135"
  by (simp_all add: line_compiles_def traversals_line_125_def traversals_line_208_def
      detours_line_135_def)

lemma traversals_script_SyntaxError: "traversals_script body g = (Some SyntaxError, g)"
  by (simp add: traversals_script_def run_module_def traversals_lines_def
      traversals_lines_rejected)

lemma run_module_runs: "list_all line_compiles lines \<Longrightarrow> run_module lines body s = body s"
  by (simp add: run_module_def)

section \<open>The claims\<close>

text \<open>
  Claim C1. In every detours table the run produces, a row whose barred-path cost
  (\<open>No_Bridge_Time\<close>) and baseline cost (\<open>Base_Length\<close>) are both present has a detour time
  (\<open>DET_TIME\<close>) equal to the barred-path cost minus the baseline cost.
\<close>

theorem DET_TIME_is_difference:
  assumes "detours_script solve fsum dests g = Inr (g', detours)"
    and "(dest, tbl) \<in> set detours" and "r \<in> set tbl"
    and "No_Bridge_Time r = Some barred" and "Base_Length r = Some base"
  shows "DET_TIME r = Some (barred - base)"
proof -
  from detours_script_mem [OF assms(1,2)] obtain k t0 k'
    where "detours_dest (solve dest) k t0 = Inr (k', tbl)" by blast
  then obtain t1 where "tbl = detour_metrics t1" using detours_dest_metrics by blast
  with assms(3) have "DET_TIME r = CalculateField (py_sub (No_Bridge_Time r) (Base_Length r))"
    using detour_metrics_fields(1) by blast
  with assms(4,5) show ?thesis by simp
qed

text \<open>The northern row of the example: barred cost 5, baseline 2.\<close>

theorem DET_TIME_is_difference_witness:
  "(''North'', [ex_north]) \<in> set ex_detours \<and> No_Bridge_Time ex_north = Some 5
     \<and> Base_Length ex_north = Some 2 \<and> DET_TIME ex_north = Some (5 - 2)"
proof -
  have a: "No_Bridge_Time ex_north = Some 5" and b: "Base_Length ex_north = Some 2"
    by (simp_all add: ex_north_def ex_row_def)
  have "ex_north \<in> set [ex_north]" by simp
  from DET_TIME_is_difference [OF ex_run ex_members(1) this a b] a b ex_members(1)
  show ?thesis by blast
qed


text \<open>
  Claim C3. When the barred solve of a business and a bridge finds no route, the pass of
  the loop goes on, and at the end of the run every row of that business and bridge has a
  NULL barred cost; the detour metrics derived from it are NULL too, no number is put in
  its place.
\<close>

theorem unreachable_recorded_as_null:
  assumes "detours_script solve fsum dests g = Inr (g', detours)"
    and "(dest, tbl) \<in> set detours" and "r \<in> set tbl"
    and "solve dest (Business_ID r) (BRDG_NBR r) = NoRoute"
  shows "(\<exists>st'. detour_step (solve dest) st (Business_ID r, BRDG_NBR r) = Inr st')
       \<and> No_Bridge_Time r = None \<and> DET_TIME r = None \<and> JOB_DET_TIME r = None
       \<and> DISTW_JOB_DET_TIME r = None"
proof -
  from detours_script_mem [OF assms(1,2)] obtain k t0 k'
    where d: "detours_dest (solve dest) k t0 = Inr (k', tbl)" by blast
  from detours_dest_cut_off [OF d assms(3,4)] have nb: "No_Bridge_Time r = None" .
  from d obtain t1 where "tbl = detour_metrics t1" using detours_dest_metrics by blast
  with assms(3) have f: "DET_TIME r = CalculateField (py_sub (No_Bridge_Time r) (Base_Length r))"
    "JOB_DET_TIME r = CalculateField (py_mul (DET_TIME r) (Truck_Int r))"
    "DISTW_JOB_DET_TIME r = CalculateField (py_mul (DET_TIME r) (Truck_Int_DW r))"
    using detour_metrics_fields by blast+
  from f(1) nb have dt: "DET_TIME r = None" by simp
  with f(2,3) have "JOB_DET_TIME r = None" "DISTW_JOB_DET_TIME r = None" by simp_all
  moreover have "\<exists>st'. detour_step (solve dest) st (Business_ID r, BRDG_NBR r) = Inr st'"
    using assms(4) by (rule detour_step_NoRoute)
  ultimately show ?thesis using nb dt by blast
qed

text \<open>The southern row of the example, cut off without bridge B1.\<close>

theorem unreachable_recorded_as_null_witness:
  "ex_solve ''South'' (Business_ID ex_south) (BRDG_NBR ex_south) = NoRoute
     \<and> (\<exists>st'. detour_step (ex_solve ''South'') (None, [ex_row 9]) (Business_ID ex_south, BRDG_NBR ex_south) = Inr st')
     \<and> No_Bridge_Time ex_south = None \<and> DET_TIME ex_south = None
     \<and> JOB_DET_TIME ex_south = None \<and> DISTW_JOB_DET_TIME ex_south = None"
proof -
  have a: "ex_solve ''South'' (Business_ID ex_south) (BRDG_NBR ex_south) = NoRoute"
    by (simp add: ex_solve_def)
  have "ex_south \<in> set [ex_south]" by simp
  from unreachable_recorded_as_null [OF ex_run ex_members(2) this a, of "(None, [ex_row 9])"] a
  show ?thesis by blast
qed

text \<open>
  Claim C4. The claim has the metrics of a bridge with no detour rows reported as 0 and
  none as NULL. The detours script joins its sums to the bridges and never replaces a
  NULL: in the example, bridge B2 has no detour row and its \<open>DET_TIME_SUM\<close> is NULL.
\<close>

theorem no_detours_null_sums_counterexample:
  "\<not> isl (detours_script ex_solve ex_fsum ex_dests ex_gdb)
     \<and> bridge_NBR (features (bridges ex_gdb) ! 1) = Some ''B2''
     \<and> attrs (features (bridges (fst (projr (detours_script ex_solve ex_fsum ex_dests ex_gdb)))) ! 1)
         ''DET_TIME_SUM'' = None"
proof -
  have j: "1 < length (features (bridges ex_gdb))" by (simp add: ex_bridges)
  have none: "\<forall>r\<in>set (concat (map snd ex_detours)).
      Some (BRDG_NBR r) \<noteq> bridge_NBR (features (bridges ex_gdb) ! 1)"
    using ex_bridges(2) by (simp add: ex_detours_def ex_row_def)
  have "attrs (features (bridges (ex_gdb\<lparr>bridges :=
              JoinField [''DET_TIME_SUM'', ''JOB_DET_TIME_SUM'', ''DISTW_JOB_DET_TIME_SUM'']
                (map (\<lambda>(k, n, totals). (k, totals)) (Detours_by_Bridge ex_fsum ex_detours))
                (bridges ex_gdb)\<rparr>)) ! 1) ''DET_TIME_SUM'' = None"
    by (rule detours_no_rows [OF ex_run j none]) simp
  then show ?thesis using ex_bridges(2) by (simp add: ex_run)
qed

text \<open>Claim C4 as the detours script has it: a bridge that no row of the detours tables names has
  NULL in \<open>DET_TIME_SUM\<close>, \<open>JOB_DET_TIME_SUM\<close> and \<open>DISTW_JOB_DET_TIME_SUM\<close>; the join adds
  these three fields after the fields the bridges had and changes no other field, so no
  count is joined. The three names are new to the bridges.\<close>

theorem detour_sums_null_without_rows:
  assumes "detours_script solve fsum dests g = Inr (g', detours)"
    and "j < length (features (bridges g))"
    and "\<forall>r\<in>set (concat (map snd detours)).
           Some (BRDG_NBR r) \<noteq> bridge_NBR (features (bridges g) ! j)"
    and "\<forall>f\<in>set [''DET_TIME_SUM'', ''JOB_DET_TIME_SUM'', ''DISTW_JOB_DET_TIME_SUM''].
           f \<notin> set (field_names (bridges g))"
  shows "attrs (features (bridges g') ! j) ''DET_TIME_SUM'' = None
       \<and> attrs (features (bridges g') ! j) ''JOB_DET_TIME_SUM'' = None
       \<and> attrs (features (bridges g') ! j) ''DISTW_JOB_DET_TIME_SUM'' = None
       \<and> field_names (bridges g')
           = field_names (bridges g) @ [''DET_TIME_SUM'', ''JOB_DET_TIME_SUM'', ''DISTW_JOB_DET_TIME_SUM'']
       \<and> (\<forall>f. f \<notin> set [''DET_TIME_SUM'', ''JOB_DET_TIME_SUM'', ''DISTW_JOB_DET_TIME_SUM''] \<longrightarrow>
              attrs (features (bridges g') ! j) f = attrs (features (bridges g) ! j) f)
       \<and> bridge_NBR (features (bridges g') ! j) = bridge_NBR (features (bridges g) ! j)"
proof -
  note b = detours_script_bridges(1) [OF assms(1)]
  have a: "attrs (features (bridges g') ! j) ''DET_TIME_SUM'' = None
       \<and> attrs (features (bridges g') ! j) ''JOB_DET_TIME_SUM'' = None
       \<and> attrs (features (bridges g') ! j) ''DISTW_JOB_DET_TIME_SUM'' = None"
    using detours_no_rows [OF assms(1-3)] by simp
  have n: "field_names (bridges g')
           = field_names (bridges g) @ [''DET_TIME_SUM'', ''JOB_DET_TIME_SUM'', ''DISTW_JOB_DET_TIME_SUM'']"
    by (simp only: b JoinField_simps)
  have o: "\<forall>f. f \<notin> set [''DET_TIME_SUM'', ''JOB_DET_TIME_SUM'', ''DISTW_JOB_DET_TIME_SUM''] \<longrightarrow>
              attrs (features (bridges g') ! j) f = attrs (features (bridges g) ! j) f"
    using JoinField_other [OF assms(2)] by (simp only: b) blast
  have k: "bridge_NBR (features (bridges g') ! j) = bridge_NBR (features (bridges g) ! j)"
    using assms(2) by (simp add: b JoinField_def)
  from a n o k show ?thesis by blast
qed

text \<open>Bridge B2 of the example.\<close>

theorem detour_sums_null_without_rows_witness:
  "\<exists>g'. detours_script ex_solve ex_fsum ex_dests ex_gdb = Inr (g', ex_detours)
     \<and> bridge_NBR (features (bridges g') ! 1) = Some ''B2''
     \<and> attrs (features (bridges g') ! 1) ''DET_TIME_SUM'' = None
     \<and> attrs (features (bridges g') ! 1) ''JOB_DET_TIME_SUM'' = None
     \<and> attrs (features (bridges g') ! 1) ''DISTW_JOB_DET_TIME_SUM'' = None
     \<and> field_names (bridges g')
         = [''AADT'', ''DET_TIME_SUM'', ''JOB_DET_TIME_SUM'', ''DISTW_JOB_DET_TIME_SUM'']"
proof -
  have j: "1 < length (features (bridges ex_gdb))" by (simp add: ex_bridges)
  have none: "\<forall>r\<in>set (concat (map snd ex_detours)).
      Some (BRDG_NBR r) \<noteq> bridge_NBR (features (bridges ex_gdb) ! 1)"
    using ex_bridges(2) by (simp add: ex_detours_def ex_row_def)
  have fresh: "\<forall>f\<in>set [''DET_TIME_SUM'', ''JOB_DET_TIME_SUM'', ''DISTW_JOB_DET_TIME_SUM''].
           f \<notin> set (field_names (bridges ex_gdb))"
    by (simp add: ex_bridges)
  from detour_sums_null_without_rows [OF ex_run j none fresh] ex_bridges(2,3) ex_run
  show ?thesis by simp
qed

text \<open>
  Claim C5. The grand totals \<open>BUS_TRAV_SUM\<close>, \<open>JOB_TRAV_SUM\<close> and \<open>DISTW_JOB_TRAV_SUM\<close> of a
  bridge are written by lines 304--323 of the traversals script. The script does not
  compile: after its run the bridges are as before, on the example without any of the
  three fields.
\<close>

theorem totals_never_calculated:
  "bridges (snd (traversals_script body g)) = bridges g
     \<and> field_names (bridges (snd (traversals_script body ex_source))) = [''AADT'']
     \<and> attrs (features (bridges (snd (traversals_script body ex_source))) ! 0) ''BUS_TRAV_SUM'' = None
     \<and> attrs (features (bridges (snd (traversals_script body ex_source))) ! 0) ''JOB_TRAV_SUM'' = None
     \<and> attrs (features (bridges (snd (traversals_script body ex_source))) ! 0) ''DISTW_JOB_TRAV_SUM''
         = None"
  by (simp add: traversals_script_SyntaxError ex_source_def)

text \<open>
  Claim C6. The trucking intensity of a business for one destination set, \<open>Truck_Int\<close>, is
  calculated by lines 94--99 of the traversals script. The script does not compile: after
  its run the businesses are as before, on the example with the raw intensities 20 and 6
  and no \<open>Truck_Int\<close>.
\<close>

theorem Truck_Int_never_calculated:
  "businesses (snd (traversals_script body g)) = businesses g
     \<and> map Truck_Int_Raw (businesses (snd (traversals_script body ex_source))) = [Some 20, Some 6]
     \<and> map bus_Truck_Int (businesses (snd (traversals_script body ex_source))) = [None, None]"
  by (simp add: traversals_script_SyntaxError ex_source_def)


text \<open>
  Claim C8. Every network source has one entry in the search criteria for the businesses,
  in the order of the sources; its snap type is \<open>SHAPE\<close> when and only when its name is in
  \<open>snappables\<close>, that is when it is the local streets, and \<open>NONE\<close> when and only when it is
  not.
\<close>

theorem snapping_rule:
  "length (sourceNames sources) = length sources
     \<and> (\<forall>i<length sources.
           fst (sourceNames sources ! i) = sources ! i
         \<and> (snd (sourceNames sources ! i) = ''SHAPE'' \<longleftrightarrow> sources ! i \<in> set snappables)
         \<and> (snd (sourceNames sources ! i) = ''NONE'' \<longleftrightarrow> sources ! i \<notin> set snappables)
         \<and> (sources ! i \<in> set snappables \<longleftrightarrow> sources ! i = ''Network_LocalStreets''))"
  unfolding sourceNames_def snappables_def by simp

text \<open>A network of local streets and highways.\<close>

theorem snapping_rule_witness:
  "sourceNames [''Network_LocalStreets'', ''Network_Highways'']
     = [(''Network_LocalStreets'', ''SHAPE''), (''Network_Highways'', ''NONE'')]"
proof -
  let ?s = "[''Network_LocalStreets'', ''Network_Highways'']"
  from snapping_rule [of ?s] have len: "length (sourceNames ?s) = 2"
    and all: "\<forall>i<length ?s.
           fst (sourceNames ?s ! i) = ?s ! i
         \<and> (snd (sourceNames ?s ! i) = ''SHAPE'' \<longleftrightarrow> ?s ! i \<in> set snappables)
         \<and> (snd (sourceNames ?s ! i) = ''NONE'' \<longleftrightarrow> ?s ! i \<notin> set snappables)
         \<and> (?s ! i \<in> set snappables \<longleftrightarrow> ?s ! i = ''Network_LocalStreets'')"
    by simp_all
  from all have a: "fst (sourceNames ?s ! 0) = ''Network_LocalStreets''"
    "snd (sourceNames ?s ! 0) = ''SHAPE''" by auto
  have "(1::nat) < length ?s" by simp
  with all have "fst (sourceNames ?s ! 1) = ?s ! 1
         \<and> (snd (sourceNames ?s ! 1) = ''SHAPE'' \<longleftrightarrow> ?s ! 1 \<in> set snappables)
         \<and> (snd (sourceNames ?s ! 1) = ''NONE'' \<longleftrightarrow> ?s ! 1 \<notin> set snappables)
         \<and> (?s ! 1 \<in> set snappables \<longleftrightarrow> ?s ! 1 = ''Network_LocalStreets'')" by blast
  then have b: "fst (sourceNames ?s ! 1) = ''Network_Highways''"
    "snd (sourceNames ?s ! 1) = ''NONE''" by auto
  show ?thesis
  proof (rule nth_equalityI)
    show "length (sourceNames ?s)
        = length [(''Network_LocalStreets'', ''SHAPE''), (''Network_Highways'', ''NONE'')]"
      using len by simp
  next
    fix i assume "i < length (sourceNames ?s)"
    with len have "i = 0 \<or> i = 1" by auto
    then show "sourceNames ?s ! i
        = [(''Network_LocalStreets'', ''SHAPE''), (''Network_Highways'', ''NONE'')] ! i"
      using a b by (auto simp: prod_eq_iff)
  qed
qed

text \<open>
  Claim C9. The result of a barred solve is to be written to the rows whose key string
  equals that of the solved pair. When a statement of the \<open>try\<close> block raises, the bare
  \<open>except\<close> leaves \<open>key\<close> at the previous pair's string: in the example the pass for
  business 8 and bridge B2 replaces the cost 5 and the shape of business 7 and bridge
  B1 by NULL; and when the first pass of a run fails so, \<open>key\<close> is unbound and the run
  ends with \<open>NameError\<close>.
\<close>

theorem stale_key_overwrites_previous_pair:
  "detour_pairs ex_two_rows = [(7, ''B1''), (8, ''B2'')]
     \<and> ex_stale_solve 7 ''B1'' = RouteFound (Some 5) (Some [(0, 0), (7, 7)])
     \<and> ex_stale_solve 8 ''B2'' = Failure
     \<and> map (\<lambda>r. (detKey r, No_Bridge_Time r, SHAPE r))
           (snd (projr (detour_loop ex_stale_solve (None, ex_two_rows) [(7, ''B1'')])))
         = [(''7,B1'', Some 5, Some [(0, 0), (7, 7)]), (''8,B2'', None, Some [(0, 0), (3, 4)])]
     \<and> map (\<lambda>r. (detKey r, No_Bridge_Time r, SHAPE r))
           (snd (projr (detour_loop ex_stale_solve (None, ex_two_rows) [(7, ''B1''), (8, ''B2'')])))
         = [(''7,B1'', None, None), (''8,B2'', None, Some [(0, 0), (3, 4)])]
     \<and> map (\<lambda>r. (detKey r, No_Bridge_Time r, DET_TIME r))
           (snd (projr (detours_dest ex_stale_solve None ex_two_rows)))
         = [(''7,B1'', None, None), (''8,B2'', None, None)]
     \<and> detours_dest (\<lambda>b br. Failure) None ex_two_rows = Inl NameError"
  by (simp add: ex_two_rows_def ex_stale_solve_def ex_row_def detours_dest_def
      detour_pairs_def busDict_def detour_step_def format_key_def str_int_def str_nat.simps
      digit_char_def update_rows_def detKey_def detour_metrics_def calc_DET_TIME_def
      calc_JOB_DET_TIME_def calc_DISTW_JOB_DET_TIME_def)


end
